theory Spec2Isabelle
  imports
    Main
    "HOL-Library.Word"
    "HOL-Library.AList"
    "HOL-Library.Char_ord"
    "HOL-Library.List_Lexorder"
begin

unbundle bit_operations_syntax

section \<open>Data model of main.go\<close>

text \<open>
  Bytes are 8-bit words. A Go \<open>string\<close> is a byte sequence and is modelled as an
  Isabelle \<open>string\<close> (a list of 8-bit characters). A \<open>time.Time\<close> is an instant, counted
  from the zero \<open>Time\<close>, so that the zero value of the type is \<open>0\<close>.
\<close>

type_synonym byte = "8 word"
type_synonym gotime = int

text \<open>
  A Go map is either \<open>nil\<close> (\<open>None\<close>) or a table of keyed entries. The table is an
  association list that is only ever read through \<open>map_of\<close>, written through
  \<open>AList.update\<close> and enumerated through \<open>AList.clearjunk\<close>, so neither the order of
  the list nor a shadowed pair can be observed. A Go pointer to a struct is \<open>None\<close>
  (\<open>nil\<close>) or \<open>Some\<close> struct. The JSON decoder allocates every struct it returns
  afresh, so no two map entries share a struct and writing through a pointer is
  writing the entry of the map that holds it.
\<close>

type_synonym 'v gomap = "(string \<times> 'v) list option"

record artifact_entry =
  Binary :: string
  Checksum :: string
  Patch :: string

record channel_entry =
  Version :: string
  Build :: gotime
  Artifact :: "artifact_entry option gomap"

record Manifest =
  Channel :: "channel_entry option gomap"

datatype panic = NilMapAssignment | NilDereference

text \<open>One constructor per \<open>E:\<close> message that precedes \<open>os.Exit(1)\<close>.\<close>

datatype fatal =
    EnvNotSet string
  | OpenFailed
  | StatFailed
  | ConnectFailed
  | DecodeFailed
  | ChecksumFailed
  | SeekFailed
  | ArtifactUploadFailed
  | MarshalFailed
  | ManifestUploadFailed

datatype outcome = Done | Exit1 fatal | Panicked panic

fun exit_code :: "outcome \<Rightarrow> nat" where
  "exit_code Done = 0"
| "exit_code (Exit1 e) = 1"
| "exit_code (Panicked p) = 2"

subsection \<open>The collaborators\<close>

text \<open>
  What the operating system, the object store and the imported packages answer is
  not in main.go; it is the \<open>world\<close> the program runs in. \<open>GetObject\<close> answers with
  the body of the object or with an error, of which the program only tests
  \<open>err == nil\<close>. \<open>PutObject\<close> answers whether the upload succeeded.
\<close>

datatype get_error = NoSuchKey | OtherError

datatype get_result = Body "byte list" | GetFailed get_error

record os_file =
  content :: "byte list"
  ModTime :: gotime
  stat_ok :: bool
  read_ok :: bool
  seek_ok :: bool

record put_call =
  bucket :: string
  key :: string
  body :: "byte list"
  contentType :: string

record world =
  LookupEnv :: "string \<Rightarrow> string option"
  Open :: "string \<Rightarrow> os_file option"
  NewCore :: "string \<Rightarrow> string \<Rightarrow> string \<Rightarrow> bool"
  GetObject :: "string \<Rightarrow> string \<Rightarrow> get_result"
  Decode :: "byte list \<Rightarrow> Manifest option"
  blake2b_256 :: "byte list \<Rightarrow> byte list"
  PutObject :: "put_call \<Rightarrow> bool"
  encode_string :: "string \<Rightarrow> string"
  time_MarshalJSON :: "gotime \<Rightarrow> string option"

record config =
  ACCOUNT_ID :: string
  ACCESS_KEY :: string
  ACCESS_SECRET :: string
  BUCKET :: string
  CHANNEL :: string
  APP_ID :: string
  VERSION :: string
  PLATFORM :: string
  EXECUTABLE_PATH :: string

text \<open>
  What a run leaves behind: how the process ended, the variable \<open>manifest\<close> as it
  was then, and the uploads that were attempted, in order. A run that ends before
  line 105 is over records the zero manifest: the variable is not read again, and
  what a failing decoder had written into it is not modelled.
\<close>

record run =
  status :: outcome
  manifest :: Manifest
  puts :: "put_call list"

definition stop :: "outcome \<Rightarrow> Manifest \<Rightarrow> put_call list \<Rightarrow> run" where
  "stop s m ps = \<lparr>status = s, manifest = m, puts = ps\<rparr>"

subsection \<open>Go maps and pointers\<close>

text \<open>\<open>v, ok := m[k]\<close>: reading a nil map finds nothing.\<close>

definition index :: "'v gomap \<Rightarrow> string \<Rightarrow> 'v option" where
  "index m k = (case m of None \<Rightarrow> None | Some kvs \<Rightarrow> map_of kvs k)"

text \<open>\<open>m[k] = v\<close>: assignment to an entry in a nil map panics.\<close>

definition assign :: "'v gomap \<Rightarrow> string \<Rightarrow> 'v \<Rightarrow> panic + 'v gomap" where
  "assign m k v =
     (case m of None \<Rightarrow> Inl NilMapAssignment
      | Some kvs \<Rightarrow> Inr (Some (AList.update k v kvs)))"

text \<open>
  \<open>manifest.Channel[ch]\<close> used as a pointer: a missing key reads as the nil pointer,
  and a field access through nil panics. \<open>with_channel\<close> runs \<open>f\<close> on the struct
  the pointer leads to and keeps what \<open>f\<close> wrote; \<open>with_artifact\<close> is the same one
  level down, for \<open>.Artifact[pf]\<close>.
\<close>

definition with_channel ::
  "string \<Rightarrow> (channel_entry \<Rightarrow> panic + channel_entry) \<Rightarrow> Manifest \<Rightarrow> panic + Manifest" where
  "with_channel ch f m =
     (case index (Channel m) ch of
        Some (Some ce) \<Rightarrow>
          (case f ce of
             Inl p \<Rightarrow> Inl p
           | Inr ce' \<Rightarrow>
               Inr (m\<lparr>Channel := map_option (AList.update ch (Some ce')) (Channel m)\<rparr>))
      | _ \<Rightarrow> Inl NilDereference)"

definition with_artifact ::
  "string \<Rightarrow> (artifact_entry \<Rightarrow> artifact_entry) \<Rightarrow> channel_entry \<Rightarrow> panic + channel_entry" where
  "with_artifact pf g ce =
     (case index (Artifact ce) pf of
        Some (Some ae) \<Rightarrow>
          Inr (ce\<lparr>Artifact := map_option (AList.update pf (Some (g ae))) (Artifact ce)\<rparr>)
      | _ \<Rightarrow> Inl NilDereference)"

text \<open>Reading \<open>manifest.Channel[ch].Artifact[pf]\<close> through both pointers.\<close>

definition target :: "string \<Rightarrow> string \<Rightarrow> Manifest \<Rightarrow> panic + artifact_entry" where
  "target ch pf m =
     (case index (Channel m) ch of
        Some (Some ce) \<Rightarrow>
          (case index (Artifact ce) pf of
             Some (Some ae) \<Rightarrow> Inr ae
           | _ \<Rightarrow> Inl NilDereference)
      | _ \<Rightarrow> Inl NilDereference)"

subsection \<open>hex.EncodeToString\<close>

definition hextable :: string where
  "hextable = ''0123456789abcdef''"

fun EncodeToString :: "byte list \<Rightarrow> string" where
  "EncodeToString [] = []"
| "EncodeToString (v # src) =
     hextable ! unat (drop_bit 4 v) # hextable ! unat (v AND 0x0f) # EncodeToString src"

subsection \<open>json.Marshal at the type Manifest\<close>

text \<open>
  The struct tags fix the members: every field is written under its tag, none has
  \<open>omitempty\<close>. A nil map and a nil pointer are written \<open>null\<close>, a map is written
  with its keys sorted, and the only encoder that can fail is the one of
  \<open>time.Time\<close>. How a string and an instant are spelled is the world's.
\<close>

fun join :: "string \<Rightarrow> string list \<Rightarrow> string" where
  "join sep [] = []"
| "join sep [x] = x"
| "join sep (x # y # ys) = x @ sep @ join sep (y # ys)"

definition object :: "(string \<times> string) list \<Rightarrow> string" where
  "object ms = ''{'' @ join '','' (map (\<lambda>(k, v). k @ '':'' @ v) ms) @ ''}''"

fun those_opt :: "'a option list \<Rightarrow> 'a list option" where
  "those_opt [] = Some []"
| "those_opt (x # xs) =
     (case x of None \<Rightarrow> None
      | Some y \<Rightarrow> (case those_opt xs of None \<Rightarrow> None | Some ys \<Rightarrow> Some (y # ys)))"

definition marshal_ptr :: "('a \<Rightarrow> string option) \<Rightarrow> 'a option \<Rightarrow> string option" where
  "marshal_ptr enc p = (case p of None \<Rightarrow> Some ''null'' | Some x \<Rightarrow> enc x)"

definition marshal_map ::
  "world \<Rightarrow> ('v \<Rightarrow> string option) \<Rightarrow> 'v gomap \<Rightarrow> string option" where
  "marshal_map w enc m =
     (case m of
        None \<Rightarrow> Some ''null''
      | Some kvs \<Rightarrow>
          map_option object
            (those_opt
               (map (\<lambda>(k, v). map_option (Pair (encode_string w k)) (enc v))
                  (sort_key fst (AList.clearjunk kvs)))))"

definition artifact_members :: "world \<Rightarrow> artifact_entry \<Rightarrow> (string \<times> string) list" where
  "artifact_members w ae =
     [(''\"binary\"'', encode_string w (Binary ae)),
      (''\"checksum\"'', encode_string w (Checksum ae)),
      (''\"patch\"'', encode_string w (Patch ae))]"

definition marshal_artifact :: "world \<Rightarrow> artifact_entry \<Rightarrow> string option" where
  "marshal_artifact w ae = Some (object (artifact_members w ae))"

definition marshal_channel :: "world \<Rightarrow> channel_entry \<Rightarrow> string option" where
  "marshal_channel w ce =
     (case time_MarshalJSON w (Build ce) of
        None \<Rightarrow> None
      | Some b \<Rightarrow>
          (case marshal_map w (marshal_ptr (marshal_artifact w)) (Artifact ce) of
             None \<Rightarrow> None
           | Some a \<Rightarrow>
               Some (object [(''\"version\"'', encode_string w (Version ce)),
                             (''\"build\"'', b),
                             (''\"artifact\"'', a)])))"

definition Marshal :: "world \<Rightarrow> Manifest \<Rightarrow> string option" where
  "Marshal w m =
     (case marshal_map w (marshal_ptr (marshal_channel w)) (Channel m) of
        None \<Rightarrow> None
      | Some c \<Rightarrow> Some (object [(''\"channel\"'', c)]))"

definition bytes_of :: "string \<Rightarrow> byte list" where
  "bytes_of s = map of_char s"

section \<open>The program\<close>

subsection \<open>Lines 19 to 71: the environment\<close>

definition getenv :: "world \<Rightarrow> string \<Rightarrow> fatal + string" where
  "getenv w name = (case LookupEnv w name of None \<Rightarrow> Inl (EnvNotSet name) | Some v \<Rightarrow> Inr v)"

definition load_config :: "world \<Rightarrow> fatal + config" where
  "load_config w =
     (case getenv w ''ACCOUNT_ID'' of Inl e \<Rightarrow> Inl e | Inr account_id \<Rightarrow>
     (case getenv w ''ACCESS_KEY'' of Inl e \<Rightarrow> Inl e | Inr access_key \<Rightarrow>
     (case getenv w ''ACCESS_SECRET'' of Inl e \<Rightarrow> Inl e | Inr access_secret \<Rightarrow>
     (case getenv w ''BUCKET'' of Inl e \<Rightarrow> Inl e | Inr bucket_name \<Rightarrow>
     (case getenv w ''CHANNEL'' of Inl e \<Rightarrow> Inl e | Inr channel \<Rightarrow>
     (case getenv w ''APP_ID'' of Inl e \<Rightarrow> Inl e | Inr app_id \<Rightarrow>
     (case getenv w ''VERSION'' of Inl e \<Rightarrow> Inl e | Inr version \<Rightarrow>
     (case getenv w ''PLATFORM'' of Inl e \<Rightarrow> Inl e | Inr platform \<Rightarrow>
     (case getenv w ''EXECUTABLE_PATH'' of Inl e \<Rightarrow> Inl e | Inr executable_path \<Rightarrow>
        Inr \<lparr>ACCOUNT_ID = account_id, ACCESS_KEY = access_key,
             ACCESS_SECRET = access_secret, BUCKET = bucket_name, CHANNEL = channel,
             APP_ID = app_id, VERSION = version, PLATFORM = platform,
             EXECUTABLE_PATH = executable_path\<rparr>)))))))))"

subsection \<open>Lines 96 to 105: the manifest is fetched\<close>

text \<open>
  \<open>var manifest Manifest\<close> is the zero value, whose map is nil. The body is decoded
  only when \<open>err == nil\<close>; with any error the zero value stays.
\<close>

definition zero_manifest :: Manifest where
  "zero_manifest = \<lparr>Channel = None\<rparr>"

definition manifest_key :: "string \<Rightarrow> string" where
  "manifest_key app_id = app_id @ ''/manifest.json''"

definition fetch :: "world \<Rightarrow> config \<Rightarrow> fatal + Manifest" where
  "fetch w c =
     (case GetObject w (BUCKET c) (manifest_key (APP_ID c)) of
        Body b \<Rightarrow> (case Decode w b of None \<Rightarrow> Inl DecodeFailed | Some m \<Rightarrow> Inr m)
      | GetFailed e \<Rightarrow> Inr zero_manifest)"

subsection \<open>Lines 107 to 145: the path to the entry\<close>

definition init_channels :: "Manifest \<Rightarrow> Manifest" where
  "init_channels m = (if Channel m = None then m\<lparr>Channel := Some []\<rparr> else m)"

definition ensure_channel :: "string \<Rightarrow> Manifest \<Rightarrow> panic + Manifest" where
  "ensure_channel ch m =
     (case index (Channel m) ch of
        None \<Rightarrow>
          (case assign (Channel m) ch
                  (Some \<lparr>Version = [], Build = 0, Artifact = Some []\<rparr>) of
             Inl p \<Rightarrow> Inl p
           | Inr cm \<Rightarrow> Inr (m\<lparr>Channel := cm\<rparr>))
      | Some p \<Rightarrow> Inr m)"

definition ensure_platform :: "string \<Rightarrow> string \<Rightarrow> Manifest \<Rightarrow> panic + Manifest" where
  "ensure_platform ch pf m =
     with_channel ch
       (\<lambda>ce. case index (Artifact ce) pf of
                None \<Rightarrow>
                  (case assign (Artifact ce) pf
                          (Some \<lparr>Binary = [], Checksum = [], Patch = []\<rparr>) of
                     Inl p \<Rightarrow> Inl p
                   | Inr am \<Rightarrow> Inr (ce\<lparr>Artifact := am\<rparr>))
              | Some p \<Rightarrow> Inr ce)
       m"

definition ensure_path :: "string \<Rightarrow> string \<Rightarrow> Manifest \<Rightarrow> panic + Manifest" where
  "ensure_path ch pf m =
     (case ensure_channel ch (init_channels m) of
        Inl p \<Rightarrow> Inl p
      | Inr m1 \<Rightarrow> ensure_platform ch pf m1)"

subsection \<open>Lines 147 to 175: the fields that are written\<close>

definition set_Version :: "string \<Rightarrow> string \<Rightarrow> Manifest \<Rightarrow> panic + Manifest" where
  "set_Version ch v m = with_channel ch (\<lambda>ce. Inr (ce\<lparr>Version := v\<rparr>)) m"

definition set_Checksum :: "string \<Rightarrow> string \<Rightarrow> string \<Rightarrow> Manifest \<Rightarrow> panic + Manifest" where
  "set_Checksum ch pf h m = with_channel ch (with_artifact pf (\<lambda>ae. ae\<lparr>Checksum := h\<rparr>)) m"

definition artifact_key :: "string \<Rightarrow> string \<Rightarrow> string" where
  "artifact_key app_id h = app_id @ ''/artifect/'' @ h"

definition set_Binary :: "string \<Rightarrow> string \<Rightarrow> string \<Rightarrow> Manifest \<Rightarrow> panic + Manifest" where
  "set_Binary ch pf app_id m =
     (case target ch pf m of
        Inl p \<Rightarrow> Inl p
      | Inr cur \<Rightarrow>
          with_channel ch
            (with_artifact pf (\<lambda>ae. ae\<lparr>Binary := artifact_key app_id (Checksum cur)\<rparr>)) m)"

definition set_Build :: "string \<Rightarrow> gotime \<Rightarrow> Manifest \<Rightarrow> panic + Manifest" where
  "set_Build ch t m = with_channel ch (\<lambda>ce. Inr (ce\<lparr>Build := t\<rparr>)) m"

subsection \<open>Lines 96 to 193: fetch, merge, upload\<close>

definition artifact_put :: "config \<Rightarrow> os_file \<Rightarrow> string \<Rightarrow> put_call" where
  "artifact_put c exe h =
     \<lparr>bucket = BUCKET c, key = artifact_key (APP_ID c) h, body = content exe,
      contentType = ''application/octet-stream''\<rparr>"

definition manifest_put :: "config \<Rightarrow> string \<Rightarrow> put_call" where
  "manifest_put c js =
     \<lparr>bucket = BUCKET c, key = manifest_key (APP_ID c), body = bytes_of js,
      contentType = ''application/json''\<rparr>"

definition upload :: "world \<Rightarrow> config \<Rightarrow> os_file \<Rightarrow> Manifest \<Rightarrow> run" where
  "upload w c exe m4 =
     (case target (CHANNEL c) (PLATFORM c) m4 of
        Inl p \<Rightarrow> stop (Panicked p) m4 []
      | Inr ae \<Rightarrow>
          if \<not> PutObject w (artifact_put c exe (Checksum ae))
          then stop (Exit1 ArtifactUploadFailed) m4 [artifact_put c exe (Checksum ae)]
          else
     (case set_Binary (CHANNEL c) (PLATFORM c) (APP_ID c) m4 of
        Inl p \<Rightarrow> stop (Panicked p) m4 [artifact_put c exe (Checksum ae)]
      | Inr m5 \<Rightarrow>
     (case set_Build (CHANNEL c) (ModTime exe) m5 of
        Inl p \<Rightarrow> stop (Panicked p) m5 [artifact_put c exe (Checksum ae)]
      | Inr m6 \<Rightarrow>
     (case Marshal w m6 of
        None \<Rightarrow> stop (Exit1 MarshalFailed) m6 [artifact_put c exe (Checksum ae)]
      | Some js \<Rightarrow>
          if \<not> PutObject w (manifest_put c js)
          then stop (Exit1 ManifestUploadFailed) m6
                 [artifact_put c exe (Checksum ae), manifest_put c js]
          else stop Done m6 [artifact_put c exe (Checksum ae), manifest_put c js]))))"

definition merge :: "world \<Rightarrow> config \<Rightarrow> os_file \<Rightarrow> Manifest \<Rightarrow> run" where
  "merge w c exe m0 =
     (case ensure_channel (CHANNEL c) (init_channels m0) of
        Inl p \<Rightarrow> stop (Panicked p) (init_channels m0) []
      | Inr m1 \<Rightarrow>
     (case ensure_platform (CHANNEL c) (PLATFORM c) m1 of
        Inl p \<Rightarrow> stop (Panicked p) m1 []
      | Inr m2 \<Rightarrow>
     (case set_Version (CHANNEL c) (VERSION c) m2 of
        Inl p \<Rightarrow> stop (Panicked p) m2 []
      | Inr m3 \<Rightarrow>
          if \<not> read_ok exe then stop (Exit1 ChecksumFailed) m3 []
          else
     (case set_Checksum (CHANNEL c) (PLATFORM c)
             (EncodeToString (blake2b_256 w (content exe))) m3 of
        Inl p \<Rightarrow> stop (Panicked p) m3 []
      | Inr m4 \<Rightarrow>
          if \<not> seek_ok exe then stop (Exit1 SeekFailed) m4 []
          else upload w c exe m4))))"

definition publish :: "world \<Rightarrow> config \<Rightarrow> os_file \<Rightarrow> run" where
  "publish w c exe =
     (case fetch w c of
        Inl e \<Rightarrow> stop (Exit1 e) zero_manifest []
      | Inr m0 \<Rightarrow> merge w c exe m0)"

subsection \<open>Lines 18 to 94: the whole of main\<close>

definition endpoint :: "string \<Rightarrow> string" where
  "endpoint account_id = account_id @ ''.r2.cloudflarestorage.com''"

definition main :: "world \<Rightarrow> run" where
  "main w =
     (case load_config w of
        Inl e \<Rightarrow> stop (Exit1 e) zero_manifest []
      | Inr c \<Rightarrow>
     (case Open w (EXECUTABLE_PATH c) of
        None \<Rightarrow> stop (Exit1 OpenFailed) zero_manifest []
      | Some exe \<Rightarrow>
          if \<not> stat_ok exe then stop (Exit1 StatFailed) zero_manifest []
          else if \<not> NewCore w (endpoint (ACCOUNT_ID c)) (ACCESS_KEY c) (ACCESS_SECRET c)
          then stop (Exit1 ConnectFailed) zero_manifest []
          else publish w c exe))"

section \<open>What is observed of a manifest\<close>

text \<open>
  \<open>index (Channel m) ch\<close> is the entry of a channel; \<open>artifact_at m ch pf\<close> is the
  entry of a platform under it, \<open>None\<close> where the channel has no struct to look in.
\<close>

definition artifact_at :: "Manifest \<Rightarrow> string \<Rightarrow> string \<Rightarrow> artifact_entry option option" where
  "artifact_at m ch pf =
     (case index (Channel m) ch of Some (Some ce) \<Rightarrow> index (Artifact ce) pf | _ \<Rightarrow> None)"

text \<open>
  \<open>frame ch pf m m'\<close>: from \<open>m\<close> to \<open>m'\<close> every channel but \<open>ch\<close> and every
  platform of \<open>ch\<close> but \<open>pf\<close> is as it was, and no channel key is lost.
\<close>

definition frame :: "string \<Rightarrow> string \<Rightarrow> Manifest \<Rightarrow> Manifest \<Rightarrow> bool" where
  "frame ch pf m m' \<longleftrightarrow>
     (\<forall>c. c \<noteq> ch \<longrightarrow> index (Channel m') c = index (Channel m) c) \<and>
     (\<forall>p. p \<noteq> pf \<longrightarrow> artifact_at m' ch p = artifact_at m ch p) \<and>
     (\<forall>c. index (Channel m) c \<noteq> None \<longrightarrow> index (Channel m') c \<noteq> None)"

text \<open>
  \<open>entry_is ch pf m v b ae\<close>: the channel \<open>ch\<close> of \<open>m\<close> has version \<open>v\<close> and build
  \<open>b\<close>, and its platform \<open>pf\<close> is the struct \<open>ae\<close>.
\<close>

definition entry_is ::
  "string \<Rightarrow> string \<Rightarrow> Manifest \<Rightarrow> string \<Rightarrow> gotime \<Rightarrow> artifact_entry \<Rightarrow> bool" where
  "entry_is ch pf m v b ae \<longleftrightarrow>
     (\<exists>ce. index (Channel m) ch = Some (Some ce) \<and> Version ce = v \<and> Build ce = b \<and>
           index (Artifact ce) pf = Some (Some ae))"

section \<open>Concrete runs\<close>

text \<open>
  The worlds the theorems below are run in. \<open>quote_plain\<close> is what the string
  encoder of encoding/json writes for a string of letters, digits and \<open>. / -\<close>;
  \<open>rfc3339\<close> lists the instants these runs marshal (seconds from the zero \<open>Time\<close>);
  \<open>pad32\<close> stands in for the digest, with its 32 bytes of output.
\<close>

definition quote_plain :: "string \<Rightarrow> string" where
  "quote_plain s = CHR 0x22 # s @ [CHR 0x22]"

definition rfc3339 :: "gotime \<Rightarrow> string option" where
  "rfc3339 t =
     (if t = 63835596800 then Some (quote_plain ''2023-11-14T22:13:20Z'')
      else if t = 63825596800 then Some (quote_plain ''2023-07-22T04:26:40Z'')
      else if t = 63800000000 then Some (quote_plain ''2022-09-28T22:13:20Z'')
      else if t = 0 then Some (quote_plain ''0001-01-01T00:00:00Z'')
      else None)"

definition pad32 :: "byte list \<Rightarrow> byte list" where
  "pad32 bs = take 32 (bs @ replicate 32 0)"

definition hello :: os_file where
  "hello = \<lparr>content = [0x68, 0x65, 0x6c, 0x6c, 0x6f], ModTime = 63835596800,
            stat_ok = True, read_ok = True, seek_ok = True\<rparr>"

definition cfg0 :: config where
  "cfg0 = \<lparr>ACCOUNT_ID = ''acct'', ACCESS_KEY = ''ak'', ACCESS_SECRET = ''as'',
           BUCKET = ''updates'', CHANNEL = ''stable'', APP_ID = ''app1'',
           VERSION = ''1.0.0'', PLATFORM = ''linux-x64'', EXECUTABLE_PATH = ''app.bin''\<rparr>"

text \<open>No manifest is stored yet: the store answers not-found.\<close>

definition w_absent :: world where
  "w_absent =
     \<lparr>LookupEnv = map_of
        [(''ACCOUNT_ID'', ''acct''), (''ACCESS_KEY'', ''ak''), (''ACCESS_SECRET'', ''as''),
         (''BUCKET'', ''updates''), (''CHANNEL'', ''stable''), (''APP_ID'', ''app1''),
         (''VERSION'', ''1.0.0''), (''PLATFORM'', ''linux-x64''),
         (''EXECUTABLE_PATH'', ''app.bin'')],
      Open = (\<lambda>path. if path = ''app.bin'' then Some hello else None),
      NewCore = (\<lambda>host access_key access_secret. True),
      GetObject = (\<lambda>b k. GetFailed NoSuchKey),
      Decode = (\<lambda>bs. None),
      blake2b_256 = pad32,
      PutObject = (\<lambda>q. True),
      encode_string = quote_plain,
      time_MarshalJSON = rfc3339\<rparr>"

text \<open>A manifest is stored, with two platforms under \<open>stable\<close> and one under \<open>beta\<close>.\<close>

definition stored_doc :: string where
  \<open>stored_doc =
     ''{"channel":{"beta":{"version":"1.1.0-rc1","build":"2023-07-22T04:26:40Z","artifact":{"win-x64":{"binary":"app1/artifect/aa11","checksum":"aa11","patch":""}}},"stable":{"version":"0.9.0","build":"2022-09-28T22:13:20Z","artifact":{"darwin-arm64":{"binary":"app1/artifect/bb22","checksum":"bb22","patch":""},"linux-x64":{"binary":"app1/artifect/cc33","checksum":"cc33","patch":"app1/patch/cc33"}}}}}''\<close>

definition stored :: Manifest where
  "stored =
     \<lparr>Channel = Some
        [(''beta'', Some \<lparr>Version = ''1.1.0-rc1'', Build = 63825596800, Artifact = Some
            [(''win-x64'', Some \<lparr>Binary = ''app1/artifect/aa11'', Checksum = ''aa11'',
                                  Patch = []\<rparr>)]\<rparr>),
         (''stable'', Some \<lparr>Version = ''0.9.0'', Build = 63800000000, Artifact = Some
            [(''darwin-arm64'', Some \<lparr>Binary = ''app1/artifect/bb22'', Checksum = ''bb22'',
                                       Patch = []\<rparr>),
             (''linux-x64'', Some \<lparr>Binary = ''app1/artifect/cc33'', Checksum = ''cc33'',
                                    Patch = ''app1/patch/cc33''\<rparr>)]\<rparr>)]\<rparr>"

definition w_stored :: world where
  "w_stored =
     w_absent
       \<lparr>GetObject := (\<lambda>b k. if b = ''updates'' \<and> k = ''app1/manifest.json''
                             then Body (bytes_of stored_doc) else GetFailed NoSuchKey),
        Decode := (\<lambda>bs. if bs = bytes_of stored_doc then Some stored else None)\<rparr>"

text \<open>The same store, but the fetch fails for another reason than not-found.\<close>

definition w_unreachable :: world where
  "w_unreachable = w_stored\<lparr>GetObject := (\<lambda>b k. GetFailed OtherError)\<rparr>"

text \<open>The stored manifest has the channel, and the channel has no \<open>artifact\<close> member.\<close>

definition bare_doc :: string where
  \<open>bare_doc = ''{"channel":{"stable":{"version":"0.9.0","build":"2022-09-28T22:13:20Z"}}}''\<close>

definition bare :: Manifest where
  "bare =
     \<lparr>Channel = Some
        [(''stable'', Some \<lparr>Version = ''0.9.0'', Build = 63800000000, Artifact = None\<rparr>)]\<rparr>"

definition w_bare :: world where
  "w_bare =
     w_absent
       \<lparr>GetObject := (\<lambda>b k. if b = ''updates'' \<and> k = ''app1/manifest.json''
                             then Body (bytes_of bare_doc) else GetFailed NoSuchKey),
        Decode := (\<lambda>bs. if bs = bytes_of bare_doc then Some bare else None)\<rparr>"

text \<open>The stored object is not a manifest.\<close>

definition w_garbled :: world where
  "w_garbled = w_absent\<lparr>GetObject := (\<lambda>b k. Body (bytes_of ''<html>''))\<rparr>"

text \<open>The store refuses every upload.\<close>

definition w_readonly :: world where
  "w_readonly = w_absent\<lparr>PutObject := (\<lambda>q. False)\<rparr>"

text \<open>
  What the first publish into the empty store computes: the checksum of the five
  bytes under \<open>pad32\<close>, and the manifest document.
\<close>

definition hello_sum :: string where
  "hello_sum = ''68656c6c6f000000000000000000000000000000000000000000000000000000''"

definition first_doc :: string where
  \<open>first_doc =
     ''{"channel":{"stable":{"version":"1.0.0","build":"2023-11-14T22:13:20Z","artifact":{"linux-x64":{"binary":"app1/artifect/68656c6c6f000000000000000000000000000000000000000000000000000000","checksum":"68656c6c6f000000000000000000000000000000000000000000000000000000","patch":""}}}}}''\<close>

text \<open>The document of the publish into the store that holds \<open>stored\<close>.\<close>

definition second_doc :: string where
  \<open>second_doc =
     ''{"channel":{"beta":{"version":"1.1.0-rc1","build":"2023-07-22T04:26:40Z","artifact":{"win-x64":{"binary":"app1/artifect/aa11","checksum":"aa11","patch":""}}},"stable":{"version":"1.0.0","build":"2023-11-14T22:13:20Z","artifact":{"darwin-arm64":{"binary":"app1/artifect/bb22","checksum":"bb22","patch":""},"linux-x64":{"binary":"app1/artifect/68656c6c6f000000000000000000000000000000000000000000000000000000","checksum":"68656c6c6f000000000000000000000000000000000000000000000000000000","patch":"app1/patch/cc33"}}}}}''\<close>

section \<open>Go maps: reading after writing\<close>

lemma index_simps [simp]: "index None k = None" "index (Some []) k = None"
  by (simp_all add: index_def)

lemma index_update:
  "index (Some (AList.update k v kvs)) k' = (if k' = k then Some v else index (Some kvs) k')"
  by (simp add: index_def update_conv')

lemma index_map_update:
  "index m k0 = Some v0 \<Longrightarrow>
   index (map_option (AList.update k v) m) k' = (if k' = k then Some v else index m k')"
  by (cases m) (simp_all add: index_def update_conv')

lemma with_channel_Inr:
  assumes "with_channel ch f m = Inr m'"
  shows "\<exists>ce ce'. index (Channel m) ch = Some (Some ce) \<and> f ce = Inr ce' \<and>
    (\<forall>c. index (Channel m') c = (if c = ch then Some (Some ce') else index (Channel m) c))"
  using assms
  by (auto simp: with_channel_def index_map_update split: option.splits sum.splits)

lemma with_artifact_Inr:
  assumes "with_artifact pf g ce = Inr ce'"
  shows "\<exists>ae. index (Artifact ce) pf = Some (Some ae) \<and>
    (\<forall>p. index (Artifact ce') p = (if p = pf then Some (Some (g ae)) else index (Artifact ce) p)) \<and>
    Version ce' = Version ce \<and> Build ce' = Build ce"
  using assms
  by (auto simp: with_artifact_def index_map_update split: option.splits sum.splits)

lemma with_artifact_others:
  assumes "with_artifact pf g ce = Inr ce'" and "p \<noteq> pf"
  shows "index (Artifact ce') p = index (Artifact ce) p"
  using with_artifact_Inr [OF assms(1)] assms(2) by auto

lemma init_channels_index: "index (Channel (init_channels m)) c = index (Channel m) c"
  by (simp add: init_channels_def index_def)

lemma ensure_channel_Inr:
  assumes "ensure_channel ch m = Inr m'"
  shows "index (Channel m') c =
     (if c = ch \<and> index (Channel m) ch = None
      then Some (Some \<lparr>Version = [], Build = 0, Artifact = Some []\<rparr>)
      else index (Channel m) c)"
  using assms
  by (auto simp: ensure_channel_def assign_def index_def update_conv' split: option.splits sum.splits)

section \<open>Every step keeps the other entries\<close>

lemma frame_refl: "frame ch pf m m"
  by (simp add: frame_def)

lemma frame_trans: "frame ch pf m m' \<Longrightarrow> frame ch pf m' m'' \<Longrightarrow> frame ch pf m m''"
  by (simp add: frame_def)

lemma frame_init_channels: "frame ch pf m (init_channels m)"
  by (simp add: frame_def init_channels_index artifact_at_def)

lemma frame_ensure_channel:
  assumes "ensure_channel ch m = Inr m'"
  shows "frame ch pf m m'"
  unfolding frame_def artifact_at_def
  by (auto simp: ensure_channel_Inr [OF assms])

lemma frame_with_channel:
  assumes "with_channel ch f m = Inr m'"
    and "\<And>ce ce' p. f ce = Inr ce' \<Longrightarrow> p \<noteq> pf \<Longrightarrow> index (Artifact ce') p = index (Artifact ce) p"
  shows "frame ch pf m m'"
proof -
  from with_channel_Inr [OF assms(1)] obtain ce ce' where
    old: "index (Channel m) ch = Some (Some ce)" and f: "f ce = Inr ce'" and
    new: "\<And>c. index (Channel m') c = (if c = ch then Some (Some ce') else index (Channel m) c)"
    by blast
  show ?thesis
    unfolding frame_def artifact_at_def
    using old new assms(2) [OF f] by simp
qed

lemma frame_ensure_platform:
  assumes "ensure_platform ch pf m = Inr m'"
  shows "frame ch pf m m'"
  using assms unfolding ensure_platform_def
  by (rule frame_with_channel)
     (auto simp: assign_def index_def update_conv' split: option.splits sum.splits)

lemma frame_set_Version:
  assumes "set_Version ch v m = Inr m'"
  shows "frame ch pf m m'"
  using assms unfolding set_Version_def
  by (rule frame_with_channel) auto

lemma frame_set_Build:
  assumes "set_Build ch t m = Inr m'"
  shows "frame ch pf m m'"
  using assms unfolding set_Build_def
  by (rule frame_with_channel) auto

lemma frame_set_Checksum:
  assumes "set_Checksum ch pf h m = Inr m'"
  shows "frame ch pf m m'"
  using assms unfolding set_Checksum_def
  by (rule frame_with_channel) (rule with_artifact_others)

lemma frame_set_Binary:
  assumes "set_Binary ch pf app m = Inr m'"
  shows "frame ch pf m m'"
proof -
  from assms have "\<exists>cur :: artifact_entry.
    with_channel ch (with_artifact pf (\<lambda>ae. ae\<lparr>Binary := artifact_key app (Checksum cur)\<rparr>)) m = Inr m'"
    by (auto simp: set_Binary_def split: sum.splits)
  then show ?thesis
    by (auto intro: frame_with_channel with_artifact_others)
qed

lemma frame_upload: "frame (CHANNEL c) (PLATFORM c) m4 (manifest (upload w c exe m4))"
  by (auto simp: upload_def stop_def frame_refl
      split: sum.splits option.splits
      intro: frame_set_Binary frame_trans [OF frame_set_Binary frame_set_Build])

lemma frame_merge: "frame (CHANNEL c) (PLATFORM c) m0 (manifest (merge w c exe m0))"
proof -
  let ?ch = "CHANNEL c" and ?pf = "PLATFORM c"
  note i = frame_init_channels [of ?ch ?pf m0]
  show ?thesis
  proof (cases "ensure_channel ?ch (init_channels m0)")
    case (Inl p)
    then show ?thesis by (simp add: merge_def stop_def i)
  next
    case m1: (Inr m1)
    note f1 = frame_trans [OF i frame_ensure_channel [OF m1]]
    show ?thesis
    proof (cases "ensure_platform ?ch ?pf m1")
      case (Inl p)
      then show ?thesis by (simp add: merge_def stop_def m1 f1)
    next
      case m2: (Inr m2)
      note f2 = frame_trans [OF f1 frame_ensure_platform [OF m2]]
      show ?thesis
      proof (cases "set_Version ?ch (VERSION c) m2")
        case (Inl p)
        then show ?thesis by (simp add: merge_def stop_def m1 m2 f2)
      next
        case m3: (Inr m3)
        note f3 = frame_trans [OF f2 frame_set_Version [OF m3]]
        show ?thesis
        proof (cases "set_Checksum ?ch ?pf (EncodeToString (blake2b_256 w (content exe))) m3")
          case (Inl p)
          then show ?thesis by (simp add: merge_def stop_def m1 m2 m3 f3)
        next
          case m4: (Inr m4)
          note f4 = frame_trans [OF f3 frame_set_Checksum [OF m4]]
          show ?thesis
            by (simp add: merge_def stop_def m1 m2 m3 m4 f3 f4 frame_trans [OF f4 frame_upload])
        qed
      qed
    qed
  qed
qed

section \<open>The run that reaches the manifest upload\<close>

lemma upload_two_puts:
  assumes "puts (upload w c exe m4) = [a, p]"
  shows "\<exists>ae m5 m6 js.
    target (CHANNEL c) (PLATFORM c) m4 = Inr ae \<and>
    a = artifact_put c exe (Checksum ae) \<and> PutObject w a \<and>
    set_Binary (CHANNEL c) (PLATFORM c) (APP_ID c) m4 = Inr m5 \<and>
    set_Build (CHANNEL c) (ModTime exe) m5 = Inr m6 \<and>
    Marshal w m6 = Some js \<and> p = manifest_put c js \<and>
    manifest (upload w c exe m4) = m6"
  using assms
  by (auto simp: upload_def stop_def split: sum.splits option.splits if_splits)

lemma merge_two_puts:
  assumes "puts (merge w c exe m0) = [a, p]"
  shows "\<exists>m1 m2 m3 m4.
    ensure_channel (CHANNEL c) (init_channels m0) = Inr m1 \<and>
    ensure_platform (CHANNEL c) (PLATFORM c) m1 = Inr m2 \<and>
    set_Version (CHANNEL c) (VERSION c) m2 = Inr m3 \<and>
    set_Checksum (CHANNEL c) (PLATFORM c) (EncodeToString (blake2b_256 w (content exe))) m3 = Inr m4 \<and>
    merge w c exe m0 = upload w c exe m4"
  using assms
  by (auto simp: merge_def stop_def split: sum.splits option.splits if_splits)

lemma target_entry_is:
  "target ch pf m = Inr ae \<longleftrightarrow> (\<exists>v b. entry_is ch pf m v b ae)"
  by (auto simp: target_def entry_is_def split: option.splits)

lemma entry_is_artifact_at:
  "entry_is ch pf m v b ae \<Longrightarrow> artifact_at m ch pf = Some (Some ae)"
  by (auto simp: entry_is_def artifact_at_def)

lemma entry_is_fun:
  "entry_is ch pf m v b ae \<Longrightarrow> entry_is ch pf m v' b' ae' \<Longrightarrow> v' = v \<and> b' = b \<and> ae' = ae"
  by (auto simp: entry_is_def)

lemma set_Build_entry:
  assumes "set_Build ch b' m = Inr m'" and "entry_is ch pf m v b ae"
  shows "entry_is ch pf m' v b' ae"
  using with_channel_Inr [OF assms(1) [unfolded set_Build_def]] assms(2)
  by (auto simp: entry_is_def)

lemma with_artifact_entry:
  assumes "with_channel ch (with_artifact pf g) m = Inr m'"
  shows "\<exists>v b ae. entry_is ch pf m v b ae \<and> entry_is ch pf m' v b (g ae)"
proof -
  from with_channel_Inr [OF assms] obtain ce ce' where
    old: "index (Channel m) ch = Some (Some ce)" and g: "with_artifact pf g ce = Inr ce'" and
    new: "index (Channel m') ch = Some (Some ce')"
    by auto
  from with_artifact_Inr [OF g] old new show ?thesis
    by (auto simp: entry_is_def)
qed

lemma set_Checksum_entry:
  assumes "set_Checksum ch pf h m = Inr m'"
  shows "\<exists>v b ae. entry_is ch pf m v b ae \<and> entry_is ch pf m' v b (ae\<lparr>Checksum := h\<rparr>)"
  using assms unfolding set_Checksum_def by (rule with_artifact_entry)

lemma set_Binary_entry:
  assumes "set_Binary ch pf app m = Inr m'"
  shows "\<exists>v b ae. entry_is ch pf m v b ae \<and>
    entry_is ch pf m' v b (ae\<lparr>Binary := artifact_key app (Checksum ae)\<rparr>)"
proof -
  from assms obtain cur :: artifact_entry where
    cur: "target ch pf m = Inr cur" and
    wc: "with_channel ch (with_artifact pf (\<lambda>ae. ae\<lparr>Binary := artifact_key app (Checksum cur)\<rparr>)) m = Inr m'"
    by (auto simp: set_Binary_def split: sum.splits)
  from with_artifact_entry [OF wc] obtain v b ae where
    e: "entry_is ch pf m v b ae" and
    e': "entry_is ch pf m' v b (ae\<lparr>Binary := artifact_key app (Checksum cur)\<rparr>)"
    by blast
  from cur e have "cur = ae"
    by (auto simp: target_entry_is dest: entry_is_fun)
  with e e' show ?thesis by blast
qed

lemma ensure_platform_artifact_at:
  assumes "ensure_platform ch pf m = Inr m'"
  shows "artifact_at m' ch pf =
    (case artifact_at m ch pf of
       None \<Rightarrow> Some (Some \<lparr>Binary = [], Checksum = [], Patch = []\<rparr>)
     | Some x \<Rightarrow> Some x)"
proof -
  from with_channel_Inr [OF assms [unfolded ensure_platform_def]] obtain ce ce' where
    old: "index (Channel m) ch = Some (Some ce)" and
    f: "(case index (Artifact ce) pf of
           None \<Rightarrow>
             (case assign (Artifact ce) pf (Some \<lparr>Binary = [], Checksum = [], Patch = []\<rparr>) of
                Inl p \<Rightarrow> Inl p
              | Inr am \<Rightarrow> Inr (ce\<lparr>Artifact := am\<rparr>))
         | Some p \<Rightarrow> Inr ce) = Inr ce'" and
    new: "index (Channel m') ch = Some (Some ce')"
    by auto
  from f have "index (Artifact ce') pf =
    (case index (Artifact ce) pf of
       None \<Rightarrow> Some (Some \<lparr>Binary = [], Checksum = [], Patch = []\<rparr>)
     | Some x \<Rightarrow> Some x)"
    by (cases "Artifact ce") (auto simp: assign_def index_update split: option.splits sum.splits)
  with old new show ?thesis
    by (simp add: artifact_at_def)
qed

lemma ensure_channel_artifact_at:
  assumes "ensure_channel ch m = Inr m'"
  shows "artifact_at m' ch p = artifact_at m ch p"
  by (auto simp: artifact_at_def ensure_channel_Inr [OF assms])

lemma init_channels_artifact_at: "artifact_at (init_channels m) ch p = artifact_at m ch p"
  by (simp add: artifact_at_def init_channels_index)

lemma merge_reaches_manifest_upload:
  assumes "puts (merge w c exe m0) = [a, p]"
  shows "\<exists>ae js.
    entry_is (CHANNEL c) (PLATFORM c) (manifest (merge w c exe m0)) (VERSION c) (ModTime exe) ae \<and>
    Checksum ae = EncodeToString (blake2b_256 w (content exe)) \<and>
    Binary ae = artifact_key (APP_ID c) (Checksum ae) \<and>
    Patch ae = (case artifact_at m0 (CHANNEL c) (PLATFORM c) of
                  Some (Some old) \<Rightarrow> Patch old | _ \<Rightarrow> []) \<and>
    a = artifact_put c exe (Checksum ae) \<and> PutObject w a \<and>
    Marshal w (manifest (merge w c exe m0)) = Some js \<and> p = manifest_put c js"
proof -
  let ?ch = "CHANNEL c" and ?pf = "PLATFORM c"
  let ?h = "EncodeToString (blake2b_256 w (content exe))"
  from merge_two_puts [OF assms] obtain m1 m2 m3 m4 where
    m1: "ensure_channel ?ch (init_channels m0) = Inr m1" and
    m2: "ensure_platform ?ch ?pf m1 = Inr m2" and
    m3: "set_Version ?ch (VERSION c) m2 = Inr m3" and
    m4: "set_Checksum ?ch ?pf ?h m3 = Inr m4" and
    up: "merge w c exe m0 = upload w c exe m4"
    by blast
  from upload_two_puts [OF assms [unfolded up]] obtain cur m5 m6 js where
    cur: "target ?ch ?pf m4 = Inr cur" and
    a: "a = artifact_put c exe (Checksum cur)" and ok: "PutObject w a" and
    m5: "set_Binary ?ch ?pf (APP_ID c) m4 = Inr m5" and
    m6: "set_Build ?ch (ModTime exe) m5 = Inr m6" and
    js: "Marshal w m6 = Some js" and p: "p = manifest_put c js" and
    fin: "manifest (upload w c exe m4) = m6"
    by blast
  from set_Checksum_entry [OF m4] obtain v3 b3 ae3 where
    e3: "entry_is ?ch ?pf m3 v3 b3 ae3" and
    e4: "entry_is ?ch ?pf m4 v3 b3 (ae3\<lparr>Checksum := ?h\<rparr>)"
    by blast
  from m3 have "\<exists>v2 b2. entry_is ?ch ?pf m2 v2 b2 ae3 \<and> v3 = VERSION c"
    using e3 with_channel_Inr [OF m3 [unfolded set_Version_def]]
    by (auto simp: entry_is_def split: if_splits)
  then have v3: "v3 = VERSION c" and at2: "artifact_at m2 ?ch ?pf = Some (Some ae3)"
    by (auto dest: entry_is_artifact_at)
  have at1: "artifact_at m1 ?ch ?pf = artifact_at m0 ?ch ?pf"
    by (simp add: ensure_channel_artifact_at [OF m1] init_channels_artifact_at)
  from at2 have patch: "Patch ae3 =
    (case artifact_at m0 ?ch ?pf of Some (Some old) \<Rightarrow> Patch old | _ \<Rightarrow> [])"
    by (auto simp: ensure_platform_artifact_at [OF m2] at1 split: option.splits)
  from cur e4 have cur_eq: "cur = ae3\<lparr>Checksum := ?h\<rparr>"
    by (auto simp: target_entry_is dest: entry_is_fun)
  from set_Binary_entry [OF m5] e4 have e5:
    "entry_is ?ch ?pf m5 v3 b3 (ae3\<lparr>Checksum := ?h, Binary := artifact_key (APP_ID c) ?h\<rparr>)"
    by (auto dest: entry_is_fun)
  from set_Build_entry [OF m6 e5] have e6:
    "entry_is ?ch ?pf m6 v3 (ModTime exe) (ae3\<lparr>Checksum := ?h, Binary := artifact_key (APP_ID c) ?h\<rparr>)" .
  show ?thesis
    using e6 patch a ok js p
    by (intro exI [of _ "ae3\<lparr>Checksum := ?h, Binary := artifact_key (APP_ID c) ?h\<rparr>"] exI [of _ js])
       (simp add: up fin v3 cur_eq)
qed

section \<open>Runs and their uploads\<close>

lemma publish_fetched: "fetch w c = Inr m0 \<Longrightarrow> publish w c exe = merge w c exe m0"
  by (simp add: publish_def)

lemma main_runs_publish:
  assumes "load_config w = Inr c" and "Open w (EXECUTABLE_PATH c) = Some exe" and "stat_ok exe"
    and "NewCore w (endpoint (ACCOUNT_ID c)) (ACCESS_KEY c) (ACCESS_SECRET c)"
  shows "main w = publish w c exe"
  using assms by (simp add: main_def)

lemma put_kinds_differ: "artifact_put c exe h \<noteq> manifest_put c' js"
  by (simp add: artifact_put_def manifest_put_def)

lemma upload_trace:
  "(puts (upload w c exe m4) = [] \<and> (\<exists>p. status (upload w c exe m4) = Panicked p)) \<or>
   (\<exists>h. puts (upload w c exe m4) = [artifact_put c exe h] \<and>
        \<not> PutObject w (artifact_put c exe h) \<and>
        status (upload w c exe m4) = Exit1 ArtifactUploadFailed) \<or>
   (\<exists>h. puts (upload w c exe m4) = [artifact_put c exe h] \<and>
        PutObject w (artifact_put c exe h) \<and>
        (status (upload w c exe m4) = Exit1 MarshalFailed \<or>
         (\<exists>p. status (upload w c exe m4) = Panicked p))) \<or>
   (\<exists>h js. puts (upload w c exe m4) = [artifact_put c exe h, manifest_put c js] \<and>
        PutObject w (artifact_put c exe h) \<and>
        (if PutObject w (manifest_put c js) then status (upload w c exe m4) = Done
         else status (upload w c exe m4) = Exit1 ManifestUploadFailed))"
  by (auto simp: upload_def stop_def split: sum.splits option.splits)

lemma merge_silent_or_upload:
  "(puts (merge w c exe m0) = [] \<and> status (merge w c exe m0) \<noteq> Done) \<or>
   (\<exists>m4. merge w c exe m0 = upload w c exe m4)"
  by (auto simp: merge_def stop_def split: sum.splits option.splits)

lemma publish_silent_or_upload:
  "(puts (publish w c exe) = [] \<and> status (publish w c exe) \<noteq> Done) \<or>
   (\<exists>m4. publish w c exe = upload w c exe m4)"
  using merge_silent_or_upload [of w c exe]
  by (auto simp: publish_def stop_def split: sum.splits)

lemma publish_reaches_manifest_upload:
  assumes "puts (publish w c exe) = [a, p]"
  shows "\<exists>m0 ae js.
    fetch w c = Inr m0 \<and>
    entry_is (CHANNEL c) (PLATFORM c) (manifest (publish w c exe)) (VERSION c) (ModTime exe) ae \<and>
    Checksum ae = EncodeToString (blake2b_256 w (content exe)) \<and>
    Binary ae = artifact_key (APP_ID c) (Checksum ae) \<and>
    Patch ae = (case artifact_at m0 (CHANNEL c) (PLATFORM c) of
                  Some (Some old) \<Rightarrow> Patch old | _ \<Rightarrow> []) \<and>
    a = artifact_put c exe (Checksum ae) \<and> PutObject w a \<and>
    Marshal w (manifest (publish w c exe)) = Some js \<and> p = manifest_put c js"
proof (cases "fetch w c")
  case (Inl e)
  with assms show ?thesis
    by (simp add: publish_def stop_def)
next
  case (Inr m0)
  then have run: "publish w c exe = merge w c exe m0"
    by (rule publish_fetched)
  from merge_reaches_manifest_upload [OF assms [unfolded run]] Inr show ?thesis
    unfolding run by blast
qed

section \<open>hex.EncodeToString writes lowercase hexadecimal\<close>






section \<open>What json.Marshal writes for an entry of a map\<close>

lemma those_opt_member:
  "those_opt (map f xs) = Some ys \<Longrightarrow> x \<in> set xs \<Longrightarrow> \<exists>y. f x = Some y \<and> y \<in> set ys"
proof (induction xs arbitrary: ys)
  case Nil
  then show ?case by simp
next
  case (Cons z zs)
  then show ?case
    by (auto split: option.splits)
qed

lemma marshal_map_member:
  assumes "marshal_map w enc m = Some s" and "index m k = Some v"
  shows "\<exists>ms t. s = object ms \<and> enc v = Some t \<and> (encode_string w k, t) \<in> set ms"
proof -
  from assms(2) obtain kvs where m: "m = Some kvs" and kv: "map_of kvs k = Some v"
    by (cases m) (simp_all add: index_def)
  from kv have "map_of (AList.clearjunk kvs) k = Some v"
    by (simp add: map_of_clearjunk)
  then have "(k, v) \<in> set (AList.clearjunk kvs)"
    by (rule map_of_SomeD)
  then have mem: "(k, v) \<in> set (sort_key fst (AList.clearjunk kvs))"
    by simp
  from assms(1) have "\<exists>ms. those_opt (map (\<lambda>(k, v). map_option (Pair (encode_string w k)) (enc v))
           (sort_key fst (AList.clearjunk kvs))) = Some ms \<and> s = object ms"
    unfolding marshal_map_def m by (simp add: map_option_case split: option.splits)
  then obtain ms where
    ms: "those_opt (map (\<lambda>(k, v). map_option (Pair (encode_string w k)) (enc v))
           (sort_key fst (AList.clearjunk kvs))) = Some ms" and s: "s = object ms"
    by blast
  from those_opt_member [OF ms mem] obtain y where
    y: "map_option (Pair (encode_string w k)) (enc v) = Some y" and yin: "y \<in> set ms"
    by auto
  from y obtain t where "enc v = Some t" and "y = (encode_string w k, t)"
    by (cases "enc v") simp_all
  with s yin show ?thesis
    by blast
qed

section \<open>Two publishes, evaluated\<close>


lemma first_run:
  "puts (publish w_absent cfg0 hello) = [artifact_put cfg0 hello hello_sum, manifest_put cfg0 first_doc]"
  by code_simp

lemma first_run_mem:
  "manifest_put cfg0 first_doc \<in> set (puts (publish w_absent cfg0 hello))"
  by (simp add: first_run)

lemma second_run:
  "puts (publish w_stored cfg0 hello) = [artifact_put cfg0 hello hello_sum, manifest_put cfg0 second_doc]"
  by code_simp

section \<open>The claims\<close>

text \<open>
  C1. Whatever manifest was fetched and whatever the target channel and platform
  are, the manifest the run holds when it ends has every other channel entry, and
  every other platform entry under the target channel, exactly as fetched, and every
  channel key that was fetched is still there. Where the run reaches the manifest
  upload, the document it sends is the serialization of that manifest.
\<close>

theorem publish_preserves_other_entries:
  assumes "fetch w c = Inr m0"
  shows "(\<forall>ch. ch \<noteq> CHANNEL c \<longrightarrow>
            index (Channel (manifest (publish w c exe))) ch = index (Channel m0) ch) \<and>
         (\<forall>pf. pf \<noteq> PLATFORM c \<longrightarrow>
            artifact_at (manifest (publish w c exe)) (CHANNEL c) pf = artifact_at m0 (CHANNEL c) pf) \<and>
         (\<forall>ch. index (Channel m0) ch \<noteq> None \<longrightarrow>
            index (Channel (manifest (publish w c exe))) ch \<noteq> None) \<and>
         (\<forall>a p. puts (publish w c exe) = [a, p] \<longrightarrow>
            (\<exists>js. Marshal w (manifest (publish w c exe)) = Some js \<and> body p = bytes_of js))"
proof -
  have run: "publish w c exe = merge w c exe m0"
    using assms by (rule publish_fetched)
  have "frame (CHANNEL c) (PLATFORM c) m0 (manifest (publish w c exe))"
    unfolding run by (rule frame_merge)
  moreover have "\<exists>js. Marshal w (manifest (publish w c exe)) = Some js \<and> body p = bytes_of js"
    if "puts (publish w c exe) = [a, p]" for a p
    using merge_reaches_manifest_upload [OF that [unfolded run]]
    by (auto simp: run manifest_put_def)
  ultimately show ?thesis
    unfolding frame_def by blast
qed

theorem publish_preserves_other_entries_witness:
  "fetch w_stored cfg0 = Inr stored \<and>
   ''beta'' \<noteq> CHANNEL cfg0 \<and>
   index (Channel (manifest (publish w_stored cfg0 hello))) ''beta'' = index (Channel stored) ''beta'' \<and>
   index (Channel stored) ''beta'' =
     Some (Some \<lparr>Version = ''1.1.0-rc1'', Build = 63825596800, Artifact = Some
       [(''win-x64'', Some \<lparr>Binary = ''app1/artifect/aa11'', Checksum = ''aa11'', Patch = []\<rparr>)]\<rparr>) \<and>
   ''darwin-arm64'' \<noteq> PLATFORM cfg0 \<and>
   artifact_at (manifest (publish w_stored cfg0 hello)) (CHANNEL cfg0) ''darwin-arm64'' =
     artifact_at stored (CHANNEL cfg0) ''darwin-arm64'' \<and>
   artifact_at stored (CHANNEL cfg0) ''darwin-arm64'' =
     Some (Some \<lparr>Binary = ''app1/artifect/bb22'', Checksum = ''bb22'', Patch = []\<rparr>) \<and>
   index (Channel (manifest (publish w_stored cfg0 hello))) ''beta'' \<noteq> None \<and>
   (\<exists>a p js. puts (publish w_stored cfg0 hello) = [a, p] \<and>
      Marshal w_stored (manifest (publish w_stored cfg0 hello)) = Some js \<and> body p = bytes_of js)"
proof -
  have f: "fetch w_stored cfg0 = Inr stored"
    by code_simp
  note t = publish_preserves_other_entries [OF f, of hello]
  have c: "''beta'' \<noteq> CHANNEL cfg0" and p: "''darwin-arm64'' \<noteq> PLATFORM cfg0"
    by (simp_all add: cfg0_def)
  have b: "index (Channel stored) ''beta'' =
     Some (Some \<lparr>Version = ''1.1.0-rc1'', Build = 63825596800, Artifact = Some
       [(''win-x64'', Some \<lparr>Binary = ''app1/artifect/aa11'', Checksum = ''aa11'', Patch = []\<rparr>)]\<rparr>)"
    by (simp add: stored_def index_def)
  have d: "artifact_at stored (CHANNEL cfg0) ''darwin-arm64'' =
     Some (Some \<lparr>Binary = ''app1/artifect/bb22'', Checksum = ''bb22'', Patch = []\<rparr>)"
    by (simp add: stored_def cfg0_def artifact_at_def index_def)
  have "length (puts (publish w_stored cfg0 hello)) = 2"
    by code_simp
  then obtain a q where two: "puts (publish w_stored cfg0 hello) = [a, q]"
    by (auto simp: length_Suc_conv numeral_2_eq_2)
  from t two have "\<exists>js. Marshal w_stored (manifest (publish w_stored cfg0 hello)) = Some js \<and> body q = bytes_of js"
    by blast
  with two have u: "\<exists>a p js. puts (publish w_stored cfg0 hello) = [a, p] \<and>
      Marshal w_stored (manifest (publish w_stored cfg0 hello)) = Some js \<and> body p = bytes_of js"
    by blast
  from t c have 1: "index (Channel (manifest (publish w_stored cfg0 hello))) ''beta'' = index (Channel stored) ''beta''"
    by blast
  from t p have 2: "artifact_at (manifest (publish w_stored cfg0 hello)) (CHANNEL cfg0) ''darwin-arm64'' =
     artifact_at stored (CHANNEL cfg0) ''darwin-arm64''"
    by blast
  from 1 b have 3: "index (Channel (manifest (publish w_stored cfg0 hello))) ''beta'' \<noteq> None"
    by simp
  from f c 1 b p 2 d 3 u show ?thesis
    by blast
qed

text \<open>
  C8. If the fetch succeeds and the body does not decode, the run ends with exit
  status 1 on the decode failure, and nothing has been uploaded.
\<close>

theorem undecodable_manifest_is_fatal:
  assumes "GetObject w (BUCKET c) (manifest_key (APP_ID c)) = Body b"
    and "Decode w b = None"
  shows "status (publish w c exe) = Exit1 DecodeFailed \<and>
         exit_code (status (publish w c exe)) = 1 \<and>
         puts (publish w c exe) = []"
  using assms by (simp add: publish_def fetch_def stop_def)

theorem undecodable_manifest_is_fatal_witness:
  "GetObject w_garbled (BUCKET cfg0) (manifest_key (APP_ID cfg0)) = Body (bytes_of ''<html>'') \<and>
   Decode w_garbled (bytes_of ''<html>'') = None \<and>
   main w_garbled = publish w_garbled cfg0 hello \<and>
   status (main w_garbled) = Exit1 DecodeFailed \<and>
   exit_code (status (main w_garbled)) = 1 \<and>
   puts (main w_garbled) = []"
proof -
  have g: "GetObject w_garbled (BUCKET cfg0) (manifest_key (APP_ID cfg0)) = Body (bytes_of ''<html>'')"
    by (simp add: w_garbled_def w_absent_def)
  have d: "Decode w_garbled (bytes_of ''<html>'') = None"
    by (simp add: w_garbled_def w_absent_def)
  have m: "main w_garbled = publish w_garbled cfg0 hello"
    by (rule main_runs_publish) code_simp+
  from undecodable_manifest_is_fatal [OF g d, of hello] g d m show ?thesis
    by simp
qed

text \<open>
  C5. A manifest upload is in the trace of a run only as the second of two uploads,
  after an artifact upload that the store accepted. If the store refuses the
  artifact upload, the run ends with exit status 1 on that failure and the artifact
  upload is its only upload. A run makes no other kind of upload.
\<close>

theorem artifact_upload_precedes_manifest_upload:
  "(\<forall>js. manifest_put c js \<in> set (puts (publish w c exe)) \<longrightarrow>
      (\<exists>h. puts (publish w c exe) = [artifact_put c exe h, manifest_put c js] \<and>
           PutObject w (artifact_put c exe h))) \<and>
   (\<forall>h. artifact_put c exe h \<in> set (puts (publish w c exe)) \<and>
        \<not> PutObject w (artifact_put c exe h) \<longrightarrow>
      status (publish w c exe) = Exit1 ArtifactUploadFailed \<and>
      exit_code (status (publish w c exe)) = 1 \<and>
      puts (publish w c exe) = [artifact_put c exe h]) \<and>
   (\<forall>q \<in> set (puts (publish w c exe)).
      (\<exists>h. q = artifact_put c exe h) \<or> (\<exists>js. q = manifest_put c js))"
proof (cases "puts (publish w c exe) = []")
  case True
  then show ?thesis by simp
next
  case False
  with publish_silent_or_upload [of w c exe] obtain m4 where
    run: "publish w c exe = upload w c exe m4"
    by blast
  from upload_trace [of w c exe m4] False show ?thesis
    unfolding run
    by (elim disjE exE conjE) (auto simp: put_kinds_differ put_kinds_differ [symmetric])
qed

theorem artifact_upload_precedes_manifest_upload_witness:
  "manifest_put cfg0 first_doc \<in> set (puts (publish w_absent cfg0 hello)) \<and>
   (\<exists>h. puts (publish w_absent cfg0 hello) = [artifact_put cfg0 hello h, manifest_put cfg0 first_doc] \<and>
        PutObject w_absent (artifact_put cfg0 hello h)) \<and>
   artifact_put cfg0 hello hello_sum \<in> set (puts (publish w_readonly cfg0 hello)) \<and>
   \<not> PutObject w_readonly (artifact_put cfg0 hello hello_sum) \<and>
   status (publish w_readonly cfg0 hello) = Exit1 ArtifactUploadFailed \<and>
   exit_code (status (publish w_readonly cfg0 hello)) = 1 \<and>
   puts (publish w_readonly cfg0 hello) = [artifact_put cfg0 hello hello_sum] \<and>
   main w_readonly = publish w_readonly cfg0 hello"
proof -
  note ok = artifact_upload_precedes_manifest_upload [of cfg0 w_absent hello]
  note ro = artifact_upload_precedes_manifest_upload [of cfg0 w_readonly hello]
  have m: "manifest_put cfg0 first_doc \<in> set (puts (publish w_absent cfg0 hello))"
    by (rule first_run_mem)
  with ok have 1: "\<exists>h. puts (publish w_absent cfg0 hello) =
      [artifact_put cfg0 hello h, manifest_put cfg0 first_doc] \<and>
      PutObject w_absent (artifact_put cfg0 hello h)"
    by blast
  have "puts (publish w_readonly cfg0 hello) = [artifact_put cfg0 hello hello_sum]"
    by code_simp
  then have a: "artifact_put cfg0 hello hello_sum \<in> set (puts (publish w_readonly cfg0 hello))"
    by simp
  have r: "\<not> PutObject w_readonly (artifact_put cfg0 hello hello_sum)"
    by (simp add: w_readonly_def)
  from ro a r have 2: "status (publish w_readonly cfg0 hello) = Exit1 ArtifactUploadFailed \<and>
      exit_code (status (publish w_readonly cfg0 hello)) = 1 \<and>
      puts (publish w_readonly cfg0 hello) = [artifact_put cfg0 hello hello_sum]"
    by blast
  have 3: "main w_readonly = publish w_readonly cfg0 hello"
    by (rule main_runs_publish) code_simp+
  from m 1 a r 2 3 show ?thesis
    by blast
qed



text \<open>
  C7. In a run that reaches the manifest upload, the entry of the target channel has
  the new version string as its version and the last-modification time of the
  artifact file as its build. The two fields belong to the channel entry: the other
  platforms that were fetched under the channel are under this same entry, so they
  are read with the new version and build.
\<close>

theorem merge_sets_channel_version_and_build:
  assumes "puts (publish w c exe) = [a, p]"
  shows "\<exists>ce. index (Channel (manifest (publish w c exe))) (CHANNEL c) = Some (Some ce) \<and>
           Version ce = VERSION c \<and> Build ce = ModTime exe \<and>
           (\<forall>m0 pf. fetch w c = Inr m0 \<and> pf \<noteq> PLATFORM c \<longrightarrow>
              index (Artifact ce) pf = artifact_at m0 (CHANNEL c) pf)"
proof -
  from publish_reaches_manifest_upload [OF assms] obtain m0 ae where
    f: "fetch w c = Inr m0" and
    e: "entry_is (CHANNEL c) (PLATFORM c) (manifest (publish w c exe)) (VERSION c) (ModTime exe) ae"
    by blast
  from e obtain ce where
    ce: "index (Channel (manifest (publish w c exe))) (CHANNEL c) = Some (Some ce)" and
    v: "Version ce = VERSION c" and b: "Build ce = ModTime exe"
    by (auto simp: entry_is_def)
  have "frame (CHANNEL c) (PLATFORM c) m0 (manifest (publish w c exe))"
    unfolding publish_fetched [OF f] by (rule frame_merge)
  then have "artifact_at (manifest (publish w c exe)) (CHANNEL c) pf = artifact_at m0 (CHANNEL c) pf"
    if "pf \<noteq> PLATFORM c" for pf
    using that by (simp add: frame_def)
  then have "index (Artifact ce) pf = artifact_at m0 (CHANNEL c) pf" if "pf \<noteq> PLATFORM c" for pf
    using that ce by (simp add: artifact_at_def)
  with ce v b f show ?thesis
    by auto
qed

theorem merge_sets_channel_version_and_build_witness:
  "(\<exists>a p. puts (publish w_stored cfg0 hello) = [a, p]) \<and>
   index (Channel stored) (CHANNEL cfg0) =
     Some (Some \<lparr>Version = ''0.9.0'', Build = 63800000000, Artifact = Some
       [(''darwin-arm64'', Some \<lparr>Binary = ''app1/artifect/bb22'', Checksum = ''bb22'', Patch = []\<rparr>),
        (''linux-x64'', Some \<lparr>Binary = ''app1/artifect/cc33'', Checksum = ''cc33'',
                               Patch = ''app1/patch/cc33''\<rparr>)]\<rparr>) \<and>
   fetch w_stored cfg0 = Inr stored \<and> ''darwin-arm64'' \<noteq> PLATFORM cfg0 \<and>
   (\<exists>ce. index (Channel (manifest (publish w_stored cfg0 hello))) (CHANNEL cfg0) = Some (Some ce) \<and>
      Version ce = ''1.0.0'' \<and> Build ce = 63835596800 \<and>
      index (Artifact ce) ''darwin-arm64'' =
        Some (Some \<lparr>Binary = ''app1/artifect/bb22'', Checksum = ''bb22'', Patch = []\<rparr>))"
proof -
  have "length (puts (publish w_stored cfg0 hello)) = 2"
    by code_simp
  then obtain a p where two: "puts (publish w_stored cfg0 hello) = [a, p]"
    by (auto simp: length_Suc_conv numeral_2_eq_2)
  have f: "fetch w_stored cfg0 = Inr stored"
    by code_simp
  have n: "''darwin-arm64'' \<noteq> PLATFORM cfg0"
    by (simp add: cfg0_def)
  have o: "index (Channel stored) (CHANNEL cfg0) =
     Some (Some \<lparr>Version = ''0.9.0'', Build = 63800000000, Artifact = Some
       [(''darwin-arm64'', Some \<lparr>Binary = ''app1/artifect/bb22'', Checksum = ''bb22'', Patch = []\<rparr>),
        (''linux-x64'', Some \<lparr>Binary = ''app1/artifect/cc33'', Checksum = ''cc33'',
                               Patch = ''app1/patch/cc33''\<rparr>)]\<rparr>)"
    by (simp add: stored_def cfg0_def index_def)
  have d: "artifact_at stored (CHANNEL cfg0) ''darwin-arm64'' =
     Some (Some \<lparr>Binary = ''app1/artifect/bb22'', Checksum = ''bb22'', Patch = []\<rparr>)"
    by (simp add: stored_def cfg0_def artifact_at_def index_def)
  from merge_sets_channel_version_and_build [OF two] obtain ce where
    ce: "index (Channel (manifest (publish w_stored cfg0 hello))) (CHANNEL cfg0) = Some (Some ce)" and
    v: "Version ce = VERSION cfg0" and b: "Build ce = ModTime hello" and
    s: "\<And>m0 pf. fetch w_stored cfg0 = Inr m0 \<and> pf \<noteq> PLATFORM cfg0 \<Longrightarrow>
          index (Artifact ce) pf = artifact_at m0 (CHANNEL cfg0) pf"
    by blast
  from s [of stored "''darwin-arm64''"] f n d have
    "index (Artifact ce) ''darwin-arm64'' =
       Some (Some \<lparr>Binary = ''app1/artifect/bb22'', Checksum = ''bb22'', Patch = []\<rparr>)"
    by simp
  moreover from v have "Version ce = ''1.0.0''" by (simp add: cfg0_def)
  moreover from b have "Build ce = 63835596800" by (simp add: hello_def)
  ultimately show ?thesis
    using two o f n ce by blast
qed

text \<open>
  C10. In a run that reaches the manifest upload, the binary field of the target
  entry in the manifest is the key under which the artifact upload, accepted by the
  store, stored the content of the file; and the document of the manifest upload is
  the serialization of that manifest.
\<close>

theorem binary_names_uploaded_object:
  assumes "puts (publish w c exe) = [a, p]"
  shows "\<exists>ae js. target (CHANNEL c) (PLATFORM c) (manifest (publish w c exe)) = Inr ae \<and>
           Binary ae = key a \<and> body a = content exe \<and> PutObject w a \<and>
           Marshal w (manifest (publish w c exe)) = Some js \<and>
           p = manifest_put c js \<and> body p = bytes_of js"
proof -
  from publish_reaches_manifest_upload [OF assms] obtain ae js where
    e: "entry_is (CHANNEL c) (PLATFORM c) (manifest (publish w c exe)) (VERSION c) (ModTime exe) ae" and
    b: "Binary ae = artifact_key (APP_ID c) (Checksum ae)" and
    a: "a = artifact_put c exe (Checksum ae)" and ok: "PutObject w a" and
    js: "Marshal w (manifest (publish w c exe)) = Some js" and p: "p = manifest_put c js"
    by blast
  from e have "target (CHANNEL c) (PLATFORM c) (manifest (publish w c exe)) = Inr ae"
    by (auto simp: target_entry_is)
  moreover from a b have "Binary ae = key a" and "body a = content exe"
    by (simp_all add: artifact_put_def)
  moreover from p have "body p = bytes_of js"
    by (simp add: manifest_put_def)
  ultimately show ?thesis
    using ok js p by blast
qed

theorem binary_names_uploaded_object_witness:
  "puts (publish w_absent cfg0 hello) =
     [artifact_put cfg0 hello hello_sum, manifest_put cfg0 first_doc] \<and>
   (\<exists>ae. target (CHANNEL cfg0) (PLATFORM cfg0) (manifest (publish w_absent cfg0 hello)) = Inr ae \<and>
      Binary ae = key (artifact_put cfg0 hello hello_sum) \<and>
      body (artifact_put cfg0 hello hello_sum) = content hello \<and>
      PutObject w_absent (artifact_put cfg0 hello hello_sum) \<and>
      Marshal w_absent (manifest (publish w_absent cfg0 hello)) = Some first_doc) \<and>
   key (artifact_put cfg0 hello hello_sum) =
     ''app1/artifect/68656c6c6f000000000000000000000000000000000000000000000000000000''"
proof -
  from binary_names_uploaded_object [OF first_run] obtain ae js where
    t: "target (CHANNEL cfg0) (PLATFORM cfg0) (manifest (publish w_absent cfg0 hello)) = Inr ae" and
    b: "Binary ae = key (artifact_put cfg0 hello hello_sum)" and
    c: "body (artifact_put cfg0 hello hello_sum) = content hello" and
    ok: "PutObject w_absent (artifact_put cfg0 hello hello_sum)" and
    js: "Marshal w_absent (manifest (publish w_absent cfg0 hello)) = Some js" and
    p: "manifest_put cfg0 first_doc = manifest_put cfg0 js"
    by blast
  have "Marshal w_absent (manifest (publish w_absent cfg0 hello)) = Some first_doc"
    by code_simp
  moreover have "key (artifact_put cfg0 hello hello_sum) =
     ''app1/artifect/68656c6c6f000000000000000000000000000000000000000000000000000000''"
    by (simp add: artifact_put_def artifact_key_def cfg0_def hello_sum_def)
  ultimately show ?thesis
    using first_run t b c ok by blast
qed

text \<open>
  C9, as amended. In a run that reaches the manifest upload, the patch field of the
  target entry is the one that was fetched where the fetched manifest had the entry,
  and the empty string otherwise. The document that is uploaded is the object whose
  \<open>channel\<close> member has, under the target channel, the object of the new version,
  the build and the \<open>artifact\<close> member, and that one has, under the target platform,
  the object of \<open>binary\<close>, \<open>checksum\<close> and \<open>patch\<close>: the member \<open>patch\<close> is
  always written, whatever its value.
\<close>

theorem patch_is_kept_and_always_written:
  assumes "puts (publish w c exe) = [a, p]"
  shows "\<exists>m0 ae js chans build arts.
           fetch w c = Inr m0 \<and>
           target (CHANNEL c) (PLATFORM c) (manifest (publish w c exe)) = Inr ae \<and>
           Patch ae = (case artifact_at m0 (CHANNEL c) (PLATFORM c) of
                         Some (Some old) \<Rightarrow> Patch old | _ \<Rightarrow> []) \<and>
           Marshal w (manifest (publish w c exe)) = Some js \<and>
           p = manifest_put c js \<and> body p = bytes_of js \<and>
           js = object [(''\"channel\"'', object chans)] \<and>
           time_MarshalJSON w (ModTime exe) = Some build \<and>
           (encode_string w (CHANNEL c),
            object [(''\"version\"'', encode_string w (VERSION c)),
                    (''\"build\"'', build),
                    (''\"artifact\"'', object arts)]) \<in> set chans \<and>
           (encode_string w (PLATFORM c),
            ''{\"binary\":'' @ encode_string w (Binary ae) @
            '',\"checksum\":'' @ encode_string w (Checksum ae) @
            '',\"patch\":'' @ encode_string w (Patch ae) @ ''}'') \<in> set arts"
proof -
  let ?M = "manifest (publish w c exe)"
  from publish_reaches_manifest_upload [OF assms] obtain m0 ae js where
    f: "fetch w c = Inr m0" and
    e: "entry_is (CHANNEL c) (PLATFORM c) ?M (VERSION c) (ModTime exe) ae" and
    k: "Patch ae = (case artifact_at m0 (CHANNEL c) (PLATFORM c) of
                      Some (Some old) \<Rightarrow> Patch old | _ \<Rightarrow> [])" and
    js: "Marshal w ?M = Some js" and p: "p = manifest_put c js"
    by blast
  from e have t: "target (CHANNEL c) (PLATFORM c) ?M = Inr ae"
    by (auto simp: target_entry_is)
  from e obtain ce where
    ce: "index (Channel ?M) (CHANNEL c) = Some (Some ce)" and
    v: "Version ce = VERSION c" and b: "Build ce = ModTime exe" and
    ae: "index (Artifact ce) (PLATFORM c) = Some (Some ae)"
    by (auto simp: entry_is_def)
  from js obtain cs where
    cs: "marshal_map w (marshal_ptr (marshal_channel w)) (Channel ?M) = Some cs" and
    doc: "js = object [(''\"channel\"'', cs)]"
    by (auto simp: Marshal_def split: option.splits)
  from marshal_map_member [OF cs ce] obtain chans ct where
    chans: "cs = object chans" and
    ct: "marshal_channel w ce = Some ct" and
    cmem: "(encode_string w (CHANNEL c), ct) \<in> set chans"
    by (auto simp: marshal_ptr_def)
  from ct obtain build as where
    build: "time_MarshalJSON w (Build ce) = Some build" and
    as: "marshal_map w (marshal_ptr (marshal_artifact w)) (Artifact ce) = Some as" and
    ct_eq: "ct = object [(''\"version\"'', encode_string w (Version ce)),
                        (''\"build\"'', build), (''\"artifact\"'', as)]"
    by (auto simp: marshal_channel_def split: option.splits)
  from marshal_map_member [OF as ae] obtain arts at where
    arts: "as = object arts" and
    at: "marshal_artifact w ae = Some at" and
    amem: "(encode_string w (PLATFORM c), at) \<in> set arts"
    by (auto simp: marshal_ptr_def)
  from at have at_eq: "at = ''{\"binary\":'' @ encode_string w (Binary ae) @
            '',\"checksum\":'' @ encode_string w (Checksum ae) @
            '',\"patch\":'' @ encode_string w (Patch ae) @ ''}''"
    by (simp add: marshal_artifact_def artifact_members_def object_def)
  from p have bp: "body p = bytes_of js"
    by (simp add: manifest_put_def)
  note doc' = doc [unfolded chans]
  note build' = build [unfolded b]
  note cmem' = cmem [unfolded ct_eq v arts]
  note amem' = amem [unfolded at_eq]
  show ?thesis
    by (intro exI conjI) (rule f t k js p bp doc' build' cmem' amem')+
qed

theorem patch_is_kept_and_always_written_witness:
  "puts (publish w_stored cfg0 hello) =
     [artifact_put cfg0 hello hello_sum, manifest_put cfg0 second_doc] \<and>
   fetch w_stored cfg0 = Inr stored \<and>
   artifact_at stored (CHANNEL cfg0) (PLATFORM cfg0) =
     Some (Some \<lparr>Binary = ''app1/artifect/cc33'', Checksum = ''cc33'', Patch = ''app1/patch/cc33''\<rparr>) \<and>
   (\<exists>ae js chans arts.
      target (CHANNEL cfg0) (PLATFORM cfg0) (manifest (publish w_stored cfg0 hello)) = Inr ae \<and>
      Patch ae = ''app1/patch/cc33'' \<and>
      Marshal w_stored (manifest (publish w_stored cfg0 hello)) = Some js \<and>
      manifest_put cfg0 second_doc = manifest_put cfg0 js \<and>
      js = object [(''\"channel\"'', object chans)] \<and>
      (''\"stable\"'',
       object [(''\"version\"'', ''\"1.0.0\"''),
               (''\"build\"'', ''\"2023-11-14T22:13:20Z\"''),
               (''\"artifact\"'', object arts)]) \<in> set chans \<and>
      (''\"linux-x64\"'',
       ''{\"binary\":'' @ encode_string w_stored (Binary ae) @
       '',\"checksum\":'' @ encode_string w_stored (Checksum ae) @
       '',\"patch\":\"app1/patch/cc33\"}'') \<in> set arts)"
proof -
  have f: "fetch w_stored cfg0 = Inr stored"
    by code_simp
  have o: "artifact_at stored (CHANNEL cfg0) (PLATFORM cfg0) =
     Some (Some \<lparr>Binary = ''app1/artifect/cc33'', Checksum = ''cc33'', Patch = ''app1/patch/cc33''\<rparr>)"
    by (simp add: stored_def cfg0_def artifact_at_def index_def)
  from patch_is_kept_and_always_written [OF second_run, unfolded f] obtain m0 ae js chans build arts where
    m0: "Inr stored = (Inr m0 :: fatal + Manifest)" and
    t: "target (CHANNEL cfg0) (PLATFORM cfg0) (manifest (publish w_stored cfg0 hello)) = Inr ae" and
    k: "Patch ae = (case artifact_at m0 (CHANNEL cfg0) (PLATFORM cfg0) of
                      Some (Some old) \<Rightarrow> Patch old | _ \<Rightarrow> [])" and
    js: "Marshal w_stored (manifest (publish w_stored cfg0 hello)) = Some js" and
    p: "manifest_put cfg0 second_doc = manifest_put cfg0 js" and
    doc: "js = object [(''\"channel\"'', object chans)]" and
    build: "time_MarshalJSON w_stored (ModTime hello) = Some build" and
    cmem: "(encode_string w_stored (CHANNEL cfg0),
            object [(''\"version\"'', encode_string w_stored (VERSION cfg0)),
                    (''\"build\"'', build),
                    (''\"artifact\"'', object arts)]) \<in> set chans" and
    amem: "(encode_string w_stored (PLATFORM cfg0),
            ''{\"binary\":'' @ encode_string w_stored (Binary ae) @
            '',\"checksum\":'' @ encode_string w_stored (Checksum ae) @
            '',\"patch\":'' @ encode_string w_stored (Patch ae) @ ''}'') \<in> set arts"
    by blast
  from m0 have "m0 = stored"
    by simp
  with k o have k': "Patch ae = ''app1/patch/cc33''"
    by simp
  have q: "encode_string w_stored = quote_plain"
    by (simp add: w_stored_def w_absent_def)
  from build have b': "build = ''\"2023-11-14T22:13:20Z\"''"
    by (simp add: w_stored_def w_absent_def hello_def rfc3339_def quote_plain_def)
  from cmem have cmem': "(''\"stable\"'',
       object [(''\"version\"'', ''\"1.0.0\"''),
               (''\"build\"'', ''\"2023-11-14T22:13:20Z\"''),
               (''\"artifact\"'', object arts)]) \<in> set chans"
    by (simp add: b' q cfg0_def quote_plain_def)
  from amem have amem': "(''\"linux-x64\"'',
       ''{\"binary\":'' @ encode_string w_stored (Binary ae) @
       '',\"checksum\":'' @ encode_string w_stored (Checksum ae) @
       '',\"patch\":\"app1/patch/cc33\"}'') \<in> set arts"
    by (simp add: k' cfg0_def quote_plain_def q)
  show ?thesis
    by (intro exI conjI) (rule second_run f o t k' js p doc cmem' amem')+
qed

text \<open>
  C9, as stated, fails: published into an empty store, the target entry has no
  fetched patch value, and the document that is uploaded has the member
  \<open>"patch":""\<close> for it. The field's tag is \<open>json:"patch"\<close>, without \<open>omitempty\<close>.
\<close>

theorem patch_absent_counterexample:
  \<open>fetch w_absent cfg0 = Inr zero_manifest \<and>
   artifact_at zero_manifest (CHANNEL cfg0) (PLATFORM cfg0) = None \<and>
   target (CHANNEL cfg0) (PLATFORM cfg0) (manifest (publish w_absent cfg0 hello)) =
     Inr \<lparr>Binary = ''app1/artifect/68656c6c6f000000000000000000000000000000000000000000000000000000'',
          Checksum = ''68656c6c6f000000000000000000000000000000000000000000000000000000'',
          Patch = []\<rparr> \<and>
   artifact_members w_absent
       \<lparr>Binary = ''app1/artifect/68656c6c6f000000000000000000000000000000000000000000000000000000'',
        Checksum = ''68656c6c6f000000000000000000000000000000000000000000000000000000'',
        Patch = []\<rparr> ! 2 = (''"patch"'', ''""'') \<and>
   map key (puts (publish w_absent cfg0 hello)) =
     [''app1/artifect/68656c6c6f000000000000000000000000000000000000000000000000000000'',
      ''app1/manifest.json''] \<and>
   body (puts (publish w_absent cfg0 hello) ! 1) = bytes_of
     ''{"channel":{"stable":{"version":"1.0.0","build":"2023-11-14T22:13:20Z","artifact":{"linux-x64":{"binary":"app1/artifect/68656c6c6f000000000000000000000000000000000000000000000000000000","checksum":"68656c6c6f000000000000000000000000000000000000000000000000000000","patch":""}}}}}''\<close>
  by code_simp

text \<open>
  C2, on the code: the store holds a manifest and the fetch fails for another reason
  than not-found. Line 100 tests \<open>err == nil\<close> only, so the run goes on from the empty
  manifest, ends with exit status 0, and has uploaded the artifact and a manifest
  that holds the target channel alone.
\<close>

theorem fetch_error_is_taken_for_absence:
  "GetObject w_unreachable (BUCKET cfg0) (manifest_key (APP_ID cfg0)) = GetFailed OtherError \<and>
   main w_unreachable = publish w_unreachable cfg0 hello \<and>
   status (main w_unreachable) = Done \<and>
   exit_code (status (main w_unreachable)) = 0 \<and>
   puts (main w_unreachable) = [artifact_put cfg0 hello hello_sum, manifest_put cfg0 first_doc]"
  by code_simp

text \<open>
  C3, on the code: the format string of lines 164 and 174 is \<open>%s/artifect/%s\<close>. The
  artifact of app \<open>app1\<close> is stored under \<open>app1/artifect/H\<close>, which is also the binary
  field, and not under \<open>app1/artifact/H\<close>.
\<close>

theorem artifact_key_is_spelled_artifect:
  "puts (main w_absent) = [artifact_put cfg0 hello hello_sum, manifest_put cfg0 first_doc] \<and>
   key (artifact_put cfg0 hello hello_sum) = ''app1/artifect/'' @ hello_sum \<and>
   key (artifact_put cfg0 hello hello_sum) \<noteq> ''app1/artifact/'' @ hello_sum \<and>
   target ''stable'' ''linux-x64'' (manifest (main w_absent)) =
     Inr \<lparr>Binary = ''app1/artifect/'' @ hello_sum, Checksum = hello_sum, Patch = []\<rparr>"
  by code_simp

text \<open>
  C4, on the code: the fetched manifest has the target channel, and the channel has
  no \<open>artifact\<close> member, so its map is nil. Line 139 reads the nil map and finds
  nothing; line 140 assigns to it, which panics. Nothing is uploaded.
\<close>

theorem missing_artifact_map_panics:
  "GetObject w_bare (BUCKET cfg0) (manifest_key (APP_ID cfg0)) = Body (bytes_of bare_doc) \<and>
   Decode w_bare (bytes_of bare_doc) = Some bare \<and>
   index (Channel bare) ''stable'' =
     Some (Some \<lparr>Version = ''0.9.0'', Build = 63800000000, Artifact = None\<rparr>) \<and>
   ensure_path ''stable'' ''linux-x64'' bare = Inl NilMapAssignment \<and>
   main w_bare = publish w_bare cfg0 hello \<and>
   status (main w_bare) = Panicked NilMapAssignment \<and>
   exit_code (status (main w_bare)) = 2 \<and>
   puts (main w_bare) = []"
  by code_simp

end
